theory Spec2Isabelle
  imports Main "HOL-Library.Sublist" "HOL-Library.Char_ord" "HOL-Library.List_Lexorder"
begin

section \<open>Python values, strings and exceptions\<close>

text \<open>
  A Python \<open>str\<close> is modelled as a \<open>string\<close> holding its UTF-8 bytes. The program only
  concatenates strings, compares them, tests them for emptiness and for substring
  containment, and all of these agree on code points and on UTF-8 bytes. Korean literals
  of the source are written byte by byte, with their meaning in a comment.

  A value of dynamic type (a profile answer read from JSON) is a \<open>pyval\<close>. The
  constructor \<open>PObj\<close> stands for any other Python value (a number, a list, a
  dictionary): the program only looks at its truth value and at its \<open>str()\<close>.
\<close>

datatype pyval = PNone | PBool bool | PStr string | PObj bool string

fun truthy :: "pyval \<Rightarrow> bool" where
  "truthy PNone = False"
| "truthy (PBool b) = b"
| "truthy (PStr s) = (s \<noteq> [])"
| "truthy (PObj b s) = b"

fun py_str :: "pyval \<Rightarrow> string" where
  "py_str PNone = ''None''"
| "py_str (PBool b) = (if b then ''True'' else ''False'')"
| "py_str (PStr s) = s"
| "py_str (PObj b s) = s"

text \<open>\<open>a or b\<close>: the first operand when it is truthy, the second otherwise.\<close>

definition py_or :: "pyval \<Rightarrow> pyval \<Rightarrow> pyval" where
  "py_or a b = (if truthy a then a else b)"

text \<open>A raised exception: its class name and its \<open>str()\<close>.\<close>

datatype exn = Exn string string

fun exn_str :: "exn \<Rightarrow> string" where
  "exn_str (Exn cls msg) = msg"

section \<open>Session store (\<open>scripts/session_manager.py\<close>)\<close>

type_synonym profile = "string \<rightharpoonup> pyval"

text \<open>\<open>d.get(k)\<close> and \<open>d.get(k, default)\<close>.\<close>

definition dict_get :: "profile \<Rightarrow> string \<Rightarrow> pyval" where
  "dict_get d k = (case d k of None \<Rightarrow> PNone | Some v \<Rightarrow> v)"

definition dict_get_default :: "profile \<Rightarrow> string \<Rightarrow> pyval \<Rightarrow> pyval" where
  "dict_get_default d k dflt = (case d k of None \<Rightarrow> dflt | Some v \<Rightarrow> v)"

text \<open>\<open>if v: normalized[k] = v\<close>\<close>

definition set_if_truthy :: "string \<Rightarrow> pyval \<Rightarrow> profile \<Rightarrow> profile" where
  "set_if_truthy k v normalized = (if truthy v then normalized(k \<mapsto> v) else normalized)"

text \<open>
  \<open>SessionManager._normalize_profile(profile, current)\<close>. The argument \<open>profile\<close>
  may be \<open>None\<close>: the merge \<open>{**current, **(profile or {})}\<close> accepts it, the next line
  \<open>profile.get("name")\<close> raises \<open>AttributeError\<close>.
\<close>

definition normalize_profile :: "profile option \<Rightarrow> profile \<Rightarrow> exn + profile" where
  "normalize_profile profile current =
     (case profile of
        None \<Rightarrow> Inl (Exn ''AttributeError'' ''NoneType object has no attribute get'')
      | Some p \<Rightarrow>
          (let normalized = current ++ p;
               name = py_or (dict_get p ''name'') (dict_get p ''A1'');
               normalized = set_if_truthy ''name'' name normalized;
               mobility = py_or (py_or (dict_get p ''mobility'') (dict_get p ''A2'')) (dict_get p ''A4'');
               activity_range =
                 py_or (py_or (dict_get p ''activity_range'') (dict_get p ''A2'')) (dict_get p ''A4'');
               emotion = py_or (dict_get p ''emotion'') (dict_get p ''B1'');
               normalized = set_if_truthy ''mobility'' mobility normalized;
               normalized = set_if_truthy ''activity_range'' activity_range normalized;
               normalized = set_if_truthy ''emotion'' emotion normalized
           in Inr normalized))"

text \<open>
  A \<open>datetime\<close> is a point of the naive local time line, in microseconds; a
  \<open>timedelta\<close> is a difference of two of them. \<open>timedelta.days\<close> is the floor of the
  difference divided by one day.
\<close>

type_synonym datetime = int

definition timedelta_minutes :: "int \<Rightarrow> int" where
  "timedelta_minutes m = m * 60000000"

definition timedelta_days :: "int \<Rightarrow> int" where
  "timedelta_days delta = delta div 86400000000"

text \<open>
  One entry of \<open>conversation_history\<close>: a dictionary with \<open>timestamp\<close>, \<open>role\<close> and
  \<open>content\<close>, or anything else found in the stored list (\<open>Malformed\<close>).
\<close>

datatype hist_item = Entry string string string | Malformed

record session =
  s_user_id :: string
  last_visit :: "string option"
  user_profile :: profile
  conversation_history :: "hist_item list"

text \<open>
  The session files: \<open>store uid\<close> is the content of \<open>sessions/<uid>.json\<close>, \<open>None\<close> when
  the file is absent or unreadable. Every file is written by \<open>save_session\<close> from a
  loaded session, so it holds the four fields and \<open>setdefault\<close> changes nothing.
\<close>

type_synonym store = "string \<Rightarrow> session option"

definition default_session :: "string \<Rightarrow> session" where
  "default_session uid =
     \<lparr> s_user_id = uid, last_visit = None,
       user_profile = [''name'' \<mapsto> PStr [], ''mobility'' \<mapsto> PStr [], ''emotion'' \<mapsto> PStr []],
       conversation_history = [] \<rparr>"

definition load_session :: "store \<Rightarrow> string \<Rightarrow> session" where
  "load_session st uid = (case st uid of Some s \<Rightarrow> s | None \<Rightarrow> default_session uid)"

definition save_session :: "store \<Rightarrow> string \<Rightarrow> session \<Rightarrow> store" where
  "save_session st uid data = st(uid \<mapsto> data)"

text \<open>\<open>add_message\<close>; \<open>stamp\<close> is \<open>datetime.now().isoformat()\<close>.\<close>

definition add_message :: "string \<Rightarrow> store \<Rightarrow> string \<Rightarrow> string \<Rightarrow> string \<Rightarrow> store" where
  "add_message stamp st uid role content =
     (let s = load_session st uid;
          message_entry = Entry stamp role content
      in save_session st uid
           (s\<lparr>conversation_history := conversation_history s @ [message_entry]\<rparr>))"

definition update_last_visit :: "string \<Rightarrow> store \<Rightarrow> string \<Rightarrow> store" where
  "update_last_visit stamp st uid =
     (let s = load_session st uid
      in save_session st uid (s\<lparr>last_visit := Some stamp\<rparr>))"

definition update_user_profile :: "store \<Rightarrow> string \<Rightarrow> profile option \<Rightarrow> exn + store" where
  "update_user_profile st uid p =
     (let s = load_session st uid
      in case normalize_profile p (user_profile s) of
           Inl e \<Rightarrow> Inl e
         | Inr normalized \<Rightarrow> Inr (save_session st uid (s\<lparr>user_profile := normalized\<rparr>)))"

subsection \<open>Welcome message\<close>

text \<open>The honorific suffix \<open>nim\<close> of the source, three UTF-8 bytes.\<close>

definition nim :: string where
  "nim = [CHR 0xEB, CHR 0x8B, CHR 0x98]"

text \<open>\<open>name = profile.get("name", "") or profile.get("A1", "")\<close>, then
  \<open>title = f"{name}nim" if name else "nim"\<close>.\<close>

definition welcome_title :: "profile \<Rightarrow> string" where
  "welcome_title prof =
     (let name = py_or (dict_get_default prof ''name'' (PStr [])) (dict_get_default prof ''A1'' (PStr []))
      in if truthy name then py_str name @ nim else nim)"

text \<open>The five greetings of \<open>get_welcome_message\<close>. In English: "Hello, <title> how are
  you today?", "<title> you are back. Shall we continue our talk?", "<title> did you rest
  well overnight?", "<title> it has been a long time!" and "Hello, <title>".\<close>

definition hello_kr :: string where
  "hello_kr = [CHR 0xEC, CHR 0x95, CHR 0x88, CHR 0xEB, CHR 0x85, CHR 0x95, CHR 0xED, CHR 0x95, CHR 0x98, CHR 0xEC, CHR 0x84, CHR 0xB8, CHR 0xEC, CHR 0x9A, CHR 0x94] @ '', ''"

definition greeting_first_time :: "string \<Rightarrow> string" where
  "greeting_first_time title = hello_kr @ title @ '' '' @ [CHR 0xEC, CHR 0x98, CHR 0xA4, CHR 0xEB, CHR 0x8A, CHR 0x98, CHR 0xEC, CHR 0x9D, CHR 0x80] @ '' '' @ [CHR 0xEC, CHR 0xA2, CHR 0x80] @ '' '' @ [CHR 0xEC, CHR 0x96, CHR 0xB4, CHR 0xEB, CHR 0x96, CHR 0xA0, CHR 0xEC, CHR 0x8B, CHR 0xA0, CHR 0xEA, CHR 0xB0, CHR 0x80, CHR 0xEC, CHR 0x9A, CHR 0x94] @ ''?''"

definition greeting_continue :: "string \<Rightarrow> string" where
  "greeting_continue title = title @ '' '' @ [CHR 0xEB, CHR 0x8B, CHR 0xA4, CHR 0xEC, CHR 0x8B, CHR 0x9C] @ '' '' @ [CHR 0xEC, CHR 0x98, CHR 0xA4, CHR 0xEC, CHR 0x85, CHR 0xA8, CHR 0xEA, CHR 0xB5, CHR 0xB0, CHR 0xEC, CHR 0x9A, CHR 0x94] @ ''. '' @ [CHR 0xEC, CHR 0x9D, CHR 0xB4, CHR 0xEC, CHR 0x95, CHR 0xBC, CHR 0xEA, CHR 0xB8, CHR 0xB0, CHR 0xEB, CHR 0xA5, CHR 0xBC] @ '' '' @ [CHR 0xEA, CHR 0xB3, CHR 0x84, CHR 0xEC, CHR 0x86, CHR 0x8D] @ '' '' @ [CHR 0xEB, CHR 0x82, CHR 0x98, CHR 0xEB, CHR 0x88, CHR 0xA0, CHR 0xEB, CHR 0xB3, CHR 0xBC, CHR 0xEA, CHR 0xB9, CHR 0x8C, CHR 0xEC, CHR 0x9A, CHR 0x94] @ ''?''"

definition greeting_rested :: "string \<Rightarrow> string" where
  "greeting_rested title = title @ '' '' @ [CHR 0xEB, CHR 0xB0, CHR 0xA4, CHR 0xEC, CHR 0x82, CHR 0xAC, CHR 0xEC, CHR 0x9D, CHR 0xB4] @ '' '' @ [CHR 0xED, CHR 0x8E, CHR 0xB8, CHR 0xEC, CHR 0x95, CHR 0x88, CHR 0xED, CHR 0x95, CHR 0x98, CHR 0xEC, CHR 0x85, CHR 0xA8, CHR 0xEB, CHR 0x82, CHR 0x98, CHR 0xEC, CHR 0x9A, CHR 0x94] @ ''?''"

definition greeting_long_time :: "string \<Rightarrow> string" where
  "greeting_long_time title = title @ '' '' @ [CHR 0xEC, CHR 0x98, CHR 0xA4, CHR 0xEB, CHR 0x9E, CHR 0x9C, CHR 0xEB, CHR 0xA7, CHR 0x8C, CHR 0xEC, CHR 0x97, CHR 0x90] @ '' '' @ [CHR 0xEC, CHR 0x98, CHR 0xA4, CHR 0xEC, CHR 0x85, CHR 0xA8, CHR 0xEB, CHR 0x84, CHR 0xA4, CHR 0xEC, CHR 0x9A, CHR 0x94] @ ''!''"

definition greeting_plain :: "string \<Rightarrow> string" where
  "greeting_plain title = hello_kr @ title"

text \<open>
  \<open>get_welcome_message(user_id)\<close>. \<open>fromiso\<close> is \<open>datetime.fromisoformat\<close>, \<open>None\<close> where
  it raises; \<open>now_dt\<close> is the reading of \<open>datetime.now()\<close>.
\<close>

definition get_welcome_message ::
  "(string \<Rightarrow> datetime option) \<Rightarrow> datetime \<Rightarrow> store \<Rightarrow> string \<Rightarrow> string" where
  "get_welcome_message fromiso now_dt st uid =
     (let s = load_session st uid;
          title = welcome_title (user_profile s)
      in case last_visit s of
           None \<Rightarrow> greeting_first_time title
         | Some last_visit_str \<Rightarrow>
             if last_visit_str = [] then greeting_first_time title
             else (case fromiso last_visit_str of
                     None \<Rightarrow> greeting_plain title
                   | Some last_dt \<Rightarrow>
                       (let days_diff = timedelta_days (now_dt - last_dt)
                        in if days_diff = 0 then greeting_continue title
                           else if days_diff = 1 then greeting_rested title
                           else greeting_long_time title)))"

section \<open>Conversation engine (\<open>scripts/conversation_engine.py\<close>)\<close>

definition WELCOME_COOLDOWN_MINUTES :: int where
  "WELCOME_COOLDOWN_MINUTES = 30"

text \<open>\<open>_should_show_welcome(session, mode)\<close>\<close>

definition should_show_welcome ::
  "(string \<Rightarrow> datetime option) \<Rightarrow> datetime \<Rightarrow> session \<Rightarrow> string \<Rightarrow> bool" where
  "should_show_welcome fromiso now_dt s mode =
     (if mode \<noteq> ''chat'' then False
      else case last_visit s of
             None \<Rightarrow> False
           | Some lv \<Rightarrow>
               if lv = [] \<or> conversation_history s = [] then False
               else (case fromiso lv of
                       None \<Rightarrow> False
                     | Some last_dt \<Rightarrow>
                         now_dt - last_dt > timedelta_minutes WELCOME_COOLDOWN_MINUTES))"

subsection \<open>Messages and external collaborators\<close>

type_synonym args = "(string \<times> pyval) list"

record tool_call =
  tc_name :: string
  tc_args :: args
  tc_id :: string

record ai_message =
  content :: string
  tool_calls :: "tool_call list"

datatype message =
    SystemMessage string
  | HumanMessage string
  | AIMessage ai_message
  | ToolMessage string string

text \<open>The state handed to the compiled graph (\<open>AgentState\<close>).\<close>

record inputs =
  in_messages :: "message list"
  in_user_profile :: profile
  in_current_mode :: string
  in_user_id :: string
  in_recent_texts :: "string list"

text \<open>
  One event of \<open>app.stream\<close>: for each node that ran, its update; \<open>Some ms\<close> is the list
  under the key \<open>messages\<close>, \<open>None\<close> an update without that key.
\<close>

type_synonym event = "(string \<times> message list option) list"

text \<open>
  What lies outside the program. \<open>llm_invoke\<close> is \<open>llm.invoke\<close> of the model bound to
  the information tools; \<open>tools_by_name\<close> maps a tool name to \<open>tool.invoke\<close> followed
  by \<open>str\<close>; \<open>app_stream\<close> is the run of the compiled graph: the events it yields, and
  the exception that ends it, if one does (the graph library bounds the number of steps, so
  the run is finite); \<open>now k\<close> is the reading of the \<open>k\<close>-th \<open>datetime.now()\<close> of a
  turn. Each of them returns \<open>Inl\<close> where the Python call raises.
\<close>

record env =
  fromisoformat :: "string \<Rightarrow> datetime option"
  isoformat :: "datetime \<Rightarrow> string"
  now :: "nat \<Rightarrow> datetime"
  llm_invoke :: "message list \<Rightarrow> exn + ai_message"
  tools_by_name :: "string \<rightharpoonup> (args \<Rightarrow> exn + string)"
  app_stream :: "inputs \<Rightarrow> event list \<times> exn option"

text \<open>The log of the calls a turn makes to the language model and to the graph.\<close>

datatype ext_call = LLMInvoke "message list" | GraphStream inputs

subsection \<open>Manual tool loop of the information mode\<close>

text \<open>The system prompt of \<open>_run_info_flow\<close>, a fixed Korean text.\<close>

definition info_system_prompt :: string where
  "info_system_prompt = [CHR 0xEB, CHR 0x8B, CHR 0xB9, CHR 0xEC, CHR 0x8B, CHR 0xA0, CHR 0xEC, CHR 0x9D, CHR 0x80] @ '' '' @ [CHR 0xEC, CHR 0xA0, CHR 0x95, CHR 0xED, CHR 0x99, CHR 0x95, CHR 0xED, CHR 0x95, CHR 0x9C] @ '' '' @ [CHR 0xED, CHR 0x96, CHR 0x89, CHR 0xEC, CHR 0xA0, CHR 0x95] @ '' '' @ [CHR 0xEB, CHR 0xB0, CHR 0x8F] @ '' '' @ [CHR 0xEC, CHR 0x9E, CHR 0xA5, CHR 0xEB, CHR 0xA1, CHR 0x80] @ '' '' @ [CHR 0xEC, CHR 0xA0, CHR 0x95, CHR 0xEB, CHR 0xB3, CHR 0xB4, CHR 0xEB, CHR 0xA5, CHR 0xBC] @ '' '' @ [CHR 0xEC, CHR 0xA0, CHR 0x9C, CHR 0xEA, CHR 0xB3, CHR 0xB5, CHR 0xED, CHR 0x95, CHR 0x98, CHR 0xEB, CHR 0x8A, CHR 0x94] @ '' '' @ [CHR 0xEC, CHR 0xA0, CHR 0x84, CHR 0xEB, CHR 0xAC, CHR 0xB8, CHR 0xEA, CHR 0xB0, CHR 0x80, CHR 0xEC, CHR 0x9E, CHR 0x85, CHR 0xEB, CHR 0x8B, CHR 0x88, CHR 0xEB, CHR 0x8B, CHR 0xA4] @ ''. '' @ [CHR 0xEC, CHR 0x82, CHR 0xAC, CHR 0xEC, CHR 0x8B, CHR 0xA4, CHR 0xEA, CHR 0xB3, CHR 0xBC] @ '' '' @ [CHR 0xEC, CHR 0xA0, CHR 0x88, CHR 0xEC, CHR 0xB0, CHR 0xA8] @ '' '' @ [CHR 0xEC, CHR 0x9C, CHR 0x84, CHR 0xEC, CHR 0xA3, CHR 0xBC, CHR 0xEB, CHR 0xA1, CHR 0x9C] @ '', '' @ [CHR 0xED, CHR 0x95, CHR 0x84, CHR 0xEC, CHR 0x9A, CHR 0x94, CHR 0xED, CHR 0x95, CHR 0x9C] @ '' '' @ [CHR 0xEA, CHR 0xB2, CHR 0xBD, CHR 0xEC, CHR 0x9A, CHR 0xB0] @ '' '' @ [CHR 0xEC, CHR 0xA0, CHR 0x9C, CHR 0xEA, CHR 0xB3, CHR 0xB5, CHR 0xEB, CHR 0x90, CHR 0x9C] @ '' '' @ [CHR 0xEB, CHR 0x8F, CHR 0x84, CHR 0xEA, CHR 0xB5, CHR 0xAC, CHR 0xEB, CHR 0xA5, CHR 0xBC] @ '' '' @ [CHR 0xED, CHR 0x99, CHR 0x9C, CHR 0xEC, CHR 0x9A, CHR 0xA9, CHR 0xED, CHR 0x95, CHR 0xB4] @ '' '' @ [CHR 0xEA, CHR 0xB2, CHR 0x80, CHR 0xEC, CHR 0x83, CHR 0x89, CHR 0xED, CHR 0x95, CHR 0x98, CHR 0xEC, CHR 0x84, CHR 0xB8, CHR 0xEC, CHR 0x9A, CHR 0x94] @ ''.''"

text \<open>\<open>f"'{name}' <tool could not be found>."\<close>\<close>

definition tool_not_found_text :: "string \<Rightarrow> string" where
  "tool_not_found_text name = [CHR 0x27] @ name @ [CHR 0x27] @ '' '' @ [CHR 0xEB, CHR 0x8F, CHR 0x84, CHR 0xEA, CHR 0xB5, CHR 0xAC, CHR 0xEB, CHR 0xA5, CHR 0xBC] @ '' '' @ [CHR 0xEC, CHR 0xB0, CHR 0xBE, CHR 0xEC, CHR 0x9D, CHR 0x84] @ '' '' @ [CHR 0xEC, CHR 0x88, CHR 0x98] @ '' '' @ [CHR 0xEC, CHR 0x97, CHR 0x86, CHR 0xEC, CHR 0x8A, CHR 0xB5, CHR 0xEB, CHR 0x8B, CHR 0x88, CHR 0xEB, CHR 0x8B, CHR 0xA4] @ ''.''"

text \<open>\<open>f"<tool execution failed>: {e}"\<close>\<close>

definition tool_failed_text :: "exn \<Rightarrow> string" where
  "tool_failed_text e = [CHR 0xEB, CHR 0x8F, CHR 0x84, CHR 0xEA, CHR 0xB5, CHR 0xAC] @ '' '' @ [CHR 0xEC, CHR 0x8B, CHR 0xA4, CHR 0xED, CHR 0x96, CHR 0x89] @ '' '' @ [CHR 0xEC, CHR 0x8B, CHR 0xA4, CHR 0xED, CHR 0x8C, CHR 0xA8] @ '': '' @ exn_str e"

text \<open>The loop \<open>for call in ai_msg.tool_calls\<close>, with \<open>tool_messages\<close> as accumulator.\<close>

fun run_tool_calls ::
  "(string \<rightharpoonup> (args \<Rightarrow> exn + string)) \<Rightarrow> tool_call list \<Rightarrow> message list \<Rightarrow> message list" where
  "run_tool_calls tools [] tool_messages = tool_messages"
| "run_tool_calls tools (call # calls) tool_messages =
     (case tools (tc_name call) of
        None \<Rightarrow>
          run_tool_calls tools calls
            (tool_messages @ [ToolMessage (tool_not_found_text (tc_name call)) (tc_id call)])
      | Some tool \<Rightarrow>
          (let result = (case tool (tc_args call) of
                           Inl e \<Rightarrow> tool_failed_text e
                         | Inr r \<Rightarrow> r)
           in run_tool_calls tools calls (tool_messages @ [ToolMessage result (tc_id call)])))"

text \<open>
  \<open>_run_info_flow(profile, text, user_id, history_messages)\<close>: the calls made to the
  model, in order, and the returned text or the exception that left the function.
\<close>

definition run_info_flow ::
  "env \<Rightarrow> profile \<Rightarrow> string \<Rightarrow> string \<Rightarrow> message list \<Rightarrow> ext_call list \<times> (exn + string)" where
  "run_info_flow e prof text uid history_messages =
     (let messages = [SystemMessage info_system_prompt] @ history_messages @ [HumanMessage text]
      in case llm_invoke e messages of
           Inl ex \<Rightarrow> ([LLMInvoke messages], Inl ex)
         | Inr ai_msg \<Rightarrow>
             if tool_calls ai_msg = [] then ([LLMInvoke messages], Inr (content ai_msg))
             else
               (let tool_messages = run_tool_calls (tools_by_name e) (tool_calls ai_msg) [];
                    messages2 = messages @ [AIMessage ai_msg] @ tool_messages
                in case llm_invoke e messages2 of
                     Inl ex \<Rightarrow> ([LLMInvoke messages, LLMInvoke messages2], Inl ex)
                   | Inr final_ai \<Rightarrow>
                       ([LLMInvoke messages, LLMInvoke messages2], Inr (content final_ai))))"

subsection \<open>Entry point\<close>

text \<open>The fixed reply after a fault of the graph run ("A system error has occurred.").\<close>

definition SYSTEM_ERROR_TEXT :: string where
  "SYSTEM_ERROR_TEXT = [CHR 0xEC, CHR 0x8B, CHR 0x9C, CHR 0xEC, CHR 0x8A, CHR 0xA4, CHR 0xED, CHR 0x85, CHR 0x9C] @ '' '' @ [CHR 0xEC, CHR 0x98, CHR 0xA4, CHR 0xEB, CHR 0xA5, CHR 0x98, CHR 0xEA, CHR 0xB0, CHR 0x80] @ '' '' @ [CHR 0xEB, CHR 0xB0, CHR 0x9C, CHR 0xEC, CHR 0x83, CHR 0x9D, CHR 0xED, CHR 0x96, CHR 0x88, CHR 0xEC, CHR 0x8A, CHR 0xB5, CHR 0xEB, CHR 0x8B, CHR 0x88, CHR 0xEB, CHR 0x8B, CHR 0xA4] @ ''.''"

text \<open>The last eight history entries become messages and recent texts.\<close>

fun history_message :: "hist_item \<Rightarrow> message list" where
  "history_message Malformed = []"
| "history_message (Entry ts role c) =
     (if role = ''user'' then [HumanMessage c]
      else if role = ''assistant'' then [AIMessage \<lparr>content = c, tool_calls = []\<rparr>]
      else [])"

fun history_text :: "hist_item \<Rightarrow> string list" where
  "history_text Malformed = []"
| "history_text (Entry ts role c) = [c]"

definition last8 :: "'a list \<Rightarrow> 'a list" where
  "last8 xs = drop (length xs - 8) xs"

text \<open>
  The body of \<open>for event in self.app.stream(...)\<close>: the text of the last message without
  tool calls seen so far; \<open>v["messages"][-1]\<close> raises on an empty list.
\<close>

fun scan_items :: "(string \<times> message list option) list \<Rightarrow> string \<Rightarrow> exn + string" where
  "scan_items [] response_text = Inr response_text"
| "scan_items ((node, v) # items) response_text =
     (case v of
        None \<Rightarrow> scan_items items response_text
      | Some ms \<Rightarrow>
          if ms = [] then Inl (Exn ''IndexError'' ''list index out of range'')
          else (case last ms of
                  AIMessage m \<Rightarrow>
                    if tool_calls m = [] then scan_items items (content m)
                    else scan_items items response_text
                | _ \<Rightarrow> scan_items items response_text))"

fun scan_events :: "event list \<Rightarrow> string \<Rightarrow> exn + string" where
  "scan_events [] response_text = Inr response_text"
| "scan_events (ev # evs) response_text =
     (case scan_items ev response_text of
        Inl ex \<Rightarrow> Inl ex
      | Inr r \<Rightarrow> scan_events evs r)"

definition drive_graph :: "env \<Rightarrow> inputs \<Rightarrow> exn + string" where
  "drive_graph e inp =
     (case app_stream e inp of
        (events, ending) \<Rightarrow>
          (case scan_events events [] of
             Inl ex \<Rightarrow> Inl ex
           | Inr r \<Rightarrow> (case ending of Some ex \<Rightarrow> Inl ex | None \<Rightarrow> Inr r)))"

text \<open>What a call of \<open>process_user_message\<close> leaves behind.\<close>

record outcome =
  returned :: "exn + string"
  store_after :: store
  calls :: "ext_call list"

text \<open>
  The three lines that end a turn in both modes: \<open>add_message(user_id, "user", text)\<close>,
  \<open>add_message(user_id, "assistant", response_text)\<close>, \<open>update_last_visit(user_id)\<close>.
\<close>

definition commit_turn :: "env \<Rightarrow> store \<Rightarrow> string \<Rightarrow> string \<Rightarrow> string \<Rightarrow> store" where
  "commit_turn e st uid text response_text =
     (let st1 = add_message (isoformat e (now e 2)) st uid ''user'' text;
          st2 = add_message (isoformat e (now e 3)) st1 uid ''assistant'' response_text
      in update_last_visit (isoformat e (now e 4)) st2 uid)"

text \<open>
  The conversational context of a turn: the messages and the texts of the last eight
  history entries, and the state handed to the graph.
\<close>

definition history_messages_of :: "session \<Rightarrow> message list" where
  "history_messages_of s = concat (map history_message (last8 (conversation_history s)))"

definition recent_texts_of :: "session \<Rightarrow> string list" where
  "recent_texts_of s = concat (map history_text (last8 (conversation_history s)))"

definition turn_inputs :: "store \<Rightarrow> string \<Rightarrow> string \<Rightarrow> string \<Rightarrow> inputs" where
  "turn_inputs st uid text mode =
     (let s = load_session st uid
      in \<lparr> in_messages = history_messages_of s @ [HumanMessage text],
           in_user_profile = user_profile s, in_current_mode = mode,
           in_user_id = uid, in_recent_texts = recent_texts_of s \<rparr>)"

text \<open>\<open>welcome_text\<close>, \<open>None\<close> unless \<open>_should_show_welcome\<close> holds.\<close>

definition welcome_text_of :: "env \<Rightarrow> store \<Rightarrow> string \<Rightarrow> string \<Rightarrow> string option" where
  "welcome_text_of e st uid mode =
     (if should_show_welcome (fromisoformat e) (now e 0) (load_session st uid) mode
      then Some (get_welcome_message (fromisoformat e) (now e 1) st uid)
      else None)"

text \<open>
  \<open>process_user_message(user_id, text, mode)\<close>. The information mode calls
  \<open>_run_info_flow\<close> outside any \<open>try\<close>; the chat mode drives the graph inside
  \<open>try ... except Exception\<close>.
\<close>

definition process_user_message :: "env \<Rightarrow> store \<Rightarrow> string \<Rightarrow> string \<Rightarrow> string \<Rightarrow> outcome" where
  "process_user_message e st uid text mode =
     (let s = load_session st uid;
          prof = user_profile s;
          welcome_text = welcome_text_of e st uid mode;
          history_messages = history_messages_of s;
          inp = turn_inputs st uid text mode
      in if mode = ''info'' then
           (case run_info_flow e prof text uid history_messages of
              (log, Inl ex) \<Rightarrow> \<lparr> returned = Inl ex, store_after = st, calls = log \<rparr>
            | (log, Inr response_text) \<Rightarrow>
                \<lparr> returned = Inr response_text,
                  store_after = commit_turn e st uid text response_text,
                  calls = log \<rparr>)
         else
           (case drive_graph e inp of
              Inl ex \<Rightarrow>
                \<lparr> returned = Inr SYSTEM_ERROR_TEXT, store_after = st, calls = [GraphStream inp] \<rparr>
            | Inr reply \<Rightarrow>
                (let response_text =
                       (case welcome_text of
                          None \<Rightarrow> reply
                        | Some w \<Rightarrow>
                            if w = [] then reply
                            else if reply \<noteq> [] then w @ [CHR 0x0A, CHR 0x0A] @ reply
                            else w)
                 in \<lparr> returned = Inr response_text,
                      store_after = commit_turn e st uid text response_text,
                      calls = [GraphStream inp] \<rparr>)))"

section \<open>Companion tools (\<open>scripts/recommend_ba.py\<close>)\<close>

text \<open>
  The metadata of a match of the vector index: the index stores activity labels,
  feeling tags, question texts and intents as text, and a field that is absent reads
  \<open>None\<close>. A match is its metadata, \<open>None\<close> when the match has no \<open>metadata\<close> key.
\<close>

type_synonym metadata = "string \<rightharpoonup> string"

type_synonym match = "metadata option"

text \<open>\<open>match.get("metadata", {})\<close>\<close>

definition metadata_of :: "match \<Rightarrow> metadata" where
  "metadata_of m = (case m of None \<Rightarrow> Map.empty | Some meta \<Rightarrow> meta)"



definition opt_str :: "string option \<Rightarrow> string" where
  "opt_str v = (case v of None \<Rightarrow> ''None'' | Some s \<Rightarrow> s)"

text \<open>\<open>sep.join(xs)\<close>\<close>

fun py_join :: "string \<Rightarrow> string list \<Rightarrow> string" where
  "py_join sep [] = []"
| "py_join sep [x] = x"
| "py_join sep (x # y # ys) = x @ sep @ py_join sep (y # ys)"


text \<open>
  The vector index after \<open>_ensure_clients\<close>: whether index and embeddings are
  available, and the query (embedding of the text, then \<open>index.query\<close> with \<open>top_k\<close>
  and filter), which returns the matches or raises.
\<close>

datatype index_filter = ActivityFilter int | QuestionFilter

record vector_db =
  connected :: bool
  index_query :: "string \<Rightarrow> nat \<Rightarrow> index_filter \<Rightarrow> exn + match list"

text \<open>The per-user caches, \<open>defaultdict(set)\<close>: a key never stored reads the empty set.\<close>

type_synonym cache = "string \<Rightarrow> string set"

text \<open>"DB connection error"\<close>

definition DB_ERROR_TEXT :: string where
  "DB_ERROR_TEXT = ''DB '' @ [CHR 0xEC, CHR 0x97, CHR 0xB0, CHR 0xEA, CHR 0xB2, CHR 0xB0] @ '' '' @ [CHR 0xEC, CHR 0x98, CHR 0xA4, CHR 0xEB, CHR 0xA5, CHR 0x98]"









text \<open>\<open>uid = user_id or "__global__"\<close>\<close>

definition cache_key :: "string \<Rightarrow> string" where
  "cache_key user_id = (if user_id \<noteq> [] then user_id else ''__global__'')"

text \<open>
  What a call of the recommendation tool leaves behind: the returned text or the
  exception, the cache of recommended activities, and the activity labels of the lines
  of the returned text (empty when the text is not a list of activities).
\<close>

record recommendation =
  reply :: "exn + string"
  cache_after :: cache
  shown :: "string list"


subsection \<open>Empathy questions\<close>

text \<open>"There is no suitable question."\<close>

definition NO_QUESTION_TEXT :: string where
  "NO_QUESTION_TEXT = [CHR 0xEC, CHR 0xA0, CHR 0x81, CHR 0xEC, CHR 0xA0, CHR 0x88, CHR 0xED, CHR 0x95, CHR 0x9C] @ '' '' @ [CHR 0xEC, CHR 0xA7, CHR 0x88, CHR 0xEB, CHR 0xAC, CHR 0xB8, CHR 0xEC, CHR 0x9D, CHR 0xB4] @ '' '' @ [CHR 0xEC, CHR 0x97, CHR 0x86, CHR 0xEC, CHR 0x8A, CHR 0xB5, CHR 0xEB, CHR 0x8B, CHR 0x88, CHR 0xEB, CHR 0x8B, CHR 0xA4] @ ''.''"

text \<open>\<open>f"- {q_text} (<intent>: {meta.get('intent')})"\<close>, where \<open>q_text\<close> may be
  \<open>None\<close> in the fallback.\<close>

definition question_line :: "metadata \<Rightarrow> string" where
  "question_line meta =
     ''- '' @ opt_str (meta ''question_text'') @ '' ('' @ [CHR 0xEC, CHR 0x9D, CHR 0x98, CHR 0xEB, CHR 0x8F, CHR 0x84] @ '': '' @ opt_str (meta ''intent'') @ '')''"

text \<open>The selection loop of \<open>search_empathy_questions_tool\<close>.\<close>

fun pick_questions ::
  "match list \<Rightarrow> string set \<Rightarrow> string set \<Rightarrow> string list \<Rightarrow> string set \<times> string list" where
  "pick_questions [] already seen_local questions = (seen_local, questions)"
| "pick_questions (m # ms) already seen_local questions =
     (let meta = metadata_of m;
          q_text = meta ''question_text''
      in case q_text of
           None \<Rightarrow> pick_questions ms already seen_local questions
         | Some q \<Rightarrow>
             if q = [] \<or> q \<in> already \<or> q \<in> seen_local
             then pick_questions ms already seen_local questions
             else
               (let seen_local' = insert q seen_local;
                    questions' = questions @ [question_line meta]
                in if length questions' \<ge> 3 then (seen_local', questions')
                   else pick_questions ms already seen_local' questions'))"

text \<open>The fallback comprehension reads \<open>m['metadata']\<close>, which raises \<open>KeyError\<close> on a
  match without metadata.\<close>

fun fallback_lines :: "match list \<Rightarrow> exn + string list" where
  "fallback_lines [] = Inr []"
| "fallback_lines (m # ms) =
     (case m of
        None \<Rightarrow> Inl (Exn ''KeyError'' ''metadata'')
      | Some meta \<Rightarrow>
          (case fallback_lines ms of
             Inl ex \<Rightarrow> Inl ex
           | Inr ls \<Rightarrow> Inr (question_line meta # ls)))"

text \<open>\<open>query_text\<close>: the context, then the keywords when there are any.\<close>

definition question_query :: "string \<Rightarrow> string list \<Rightarrow> string" where
  "question_query context_text keywords =
     (if keywords \<noteq> [] then context_text @ '' / '' @ [CHR 0xED, CHR 0x82, CHR 0xA4, CHR 0xEC, CHR 0x9B, CHR 0x8C, CHR 0xEB, CHR 0x93, CHR 0x9C] @ '': '' @ py_join '', '' keywords
      else context_text)"

text \<open>
  \<open>search_empathy_questions_tool(context, depth, user_id, recent_messages)\<close>. The
  keywords drawn from the recent messages only enter the query text; they are the
  argument \<open>keywords\<close>.
\<close>

definition search_empathy_questions_tool ::
  "vector_db \<Rightarrow> cache \<Rightarrow> string \<Rightarrow> int \<Rightarrow> string \<Rightarrow> string list \<Rightarrow> (exn + string) \<times> cache" where
  "search_empathy_questions_tool db asked context_text depth user_id keywords =
     (if \<not> connected db then (Inr DB_ERROR_TEXT, asked)
      else
        (let depth' = max 1 (min depth 3);
             query_text = question_query context_text keywords
         in case index_query db query_text (nat (3 + depth')) QuestionFilter of
              Inl ex \<Rightarrow> (Inl ex, asked)
            | Inr matches \<Rightarrow>
                (let uid = cache_key user_id;
                     already = asked uid
                 in case pick_questions matches already {} [] of
                      (seen_local, fresh) \<Rightarrow>
                        (case (if fresh = [] \<and> matches \<noteq> []
                               then fallback_lines (take 3 matches)
                               else Inr fresh) of
                           Inl ex \<Rightarrow> (Inl ex, asked)
                         | Inr questions \<Rightarrow>
                             (if questions \<noteq> [] then Inr (py_join [CHR 0x0A] questions)
                              else Inr NO_QUESTION_TEXT,
                              asked(uid := already \<union> seen_local))))))"

section \<open>Information tools (\<open>chatbot/chatbot_modules/search_info.py\<close>)\<close>

text \<open>
  The first pass of \<open>find_matching_regions\<close>: \<open>Inl matched\<close> is the \<open>return\<close>
  inside the loop, reached when \<open>n\<close> regions have matched; \<open>Inr matched\<close> is the end
  of the loop.
\<close>

fun containment_loop :: "string \<Rightarrow> string list \<Rightarrow> nat \<Rightarrow> string list \<Rightarrow> string list + string list" where
  "containment_loop user_input [] n matched = Inr matched"
| "containment_loop user_input (region # rest) n matched =
     (if sublist user_input region \<or> sublist region user_input
      then (let matched' = matched @ [region]
            in if length matched' \<ge> n then Inl matched'
               else containment_loop user_input rest n matched')
      else containment_loop user_input rest n matched)"

text \<open>
  \<open>find_matching_regions(user_input, region_list, n)\<close>; \<open>close\<close> is
  \<open>difflib.get_close_matches\<close> with the cutoff 0.6 of the source. The result is the
  list of matches, \<open>None\<close> when there is none.
\<close>

definition find_matching_regions ::
  "(string \<Rightarrow> string list \<Rightarrow> nat \<Rightarrow> string list) \<Rightarrow> string \<Rightarrow> string list \<Rightarrow> nat
     \<Rightarrow> string list option" where
  "find_matching_regions close user_input region_list n =
     (case containment_loop user_input region_list n [] of
        Inl matched \<Rightarrow> Some matched
      | Inr matched \<Rightarrow>
          (let matched' = (if matched = [] then close user_input region_list n else matched)
           in if matched' \<noteq> [] then Some matched' else None))"

text \<open>
  The filter handed to the vector store: the entry \<open>type\<close>, when there is one, and
  the entry \<open>region\<close>, a region itself or the dictionary \<open>{"$in": regions}\<close>.
\<close>

datatype region_filter = RegionEq string | RegionIn "string list"

record search_filter =
  f_type :: "string option"
  f_region :: "region_filter option"

text \<open>\<open>if matched: if len(matched) == 1: ... = matched[0] else: ... = {"$in": matched}\<close>\<close>

definition with_region :: "string list option \<Rightarrow> search_filter \<Rightarrow> search_filter" where
  "with_region matched filter_dict =
     (case matched of
        None \<Rightarrow> filter_dict
      | Some ms \<Rightarrow>
          if ms = [] then filter_dict
          else if length ms = 1 then filter_dict\<lparr>f_region := Some (RegionEq (hd ms))\<rparr>
          else filter_dict\<lparr>f_region := Some (RegionIn ms)\<rparr>)"

record document =
  page_content :: string
  doc_metadata :: "(string \<times> string) list"

text \<open>A tool returns the fixed connection-error text or the documents found.\<close>

datatype tool_output = Text string | Documents "document list"

text \<open>
  The vector stores after \<open>_init_clients\<close>: whether index, embeddings and store are
  available, \<open>similarity_search(query, k, filter)\<close> of the two stores used here, and the
  similarity matching of region names.
\<close>

record info_db =
  info_connected :: bool
  ordinance_search :: "string \<Rightarrow> nat \<Rightarrow> search_filter \<Rightarrow> exn + document list"
  facilities_search :: "string \<Rightarrow> nat \<Rightarrow> search_filter \<Rightarrow> exn + document list"
  close_matches :: "string \<Rightarrow> string list \<Rightarrow> nat \<Rightarrow> string list"

text \<open>
  \<open>search_public_funeral_ordinance(query, region)\<close>: first the filter it builds,
  from the regions listed under \<open>public_funeral_ordinance\<close>, then the search.
\<close>

definition ordinance_filter ::
  "(string \<Rightarrow> string list \<Rightarrow> nat \<Rightarrow> string list) \<Rightarrow> string list \<Rightarrow> string option \<Rightarrow> search_filter" where
  "ordinance_filter close region_list region =
     (let filter_dict = \<lparr> f_type = Some ''Public_Funeral_Ordinance'', f_region = None \<rparr>;
          k = 3
      in case region of
           None \<Rightarrow> filter_dict
         | Some rg \<Rightarrow>
             if rg = [] then filter_dict
             else with_region (find_matching_regions close rg region_list k) filter_dict)"

definition search_public_funeral_ordinance ::
  "info_db \<Rightarrow> string list \<Rightarrow> string \<Rightarrow> string option \<Rightarrow> exn + tool_output" where
  "search_public_funeral_ordinance db region_list query region =
     (if \<not> info_connected db then Inr (Text DB_ERROR_TEXT)
      else case ordinance_search db query 3 (ordinance_filter (close_matches db) region_list region) of
             Inl ex \<Rightarrow> Inl ex
           | Inr results \<Rightarrow> Inr (Documents results))"

subsection \<open>Facility search\<close>

text \<open>The filter of one region of \<open>search_funeral_facilities\<close>.\<close>

definition facility_filter ::
  "(string \<Rightarrow> string list \<Rightarrow> nat \<Rightarrow> string list) \<Rightarrow> string list \<Rightarrow> string option \<Rightarrow> search_filter" where
  "facility_filter close all_regions rgn =
     (let filter_dict = \<lparr> f_type = None, f_region = None \<rparr>
      in case rgn of
           None \<Rightarrow> filter_dict
         | Some r \<Rightarrow>
             if r = [] then filter_dict
             else with_region (find_matching_regions close r all_regions 100) filter_dict)"

text \<open>The loop \<open>for rgn in regions\<close>: a search that raises is skipped.\<close>

fun facilities_loop ::
  "info_db \<Rightarrow> string list \<Rightarrow> string \<Rightarrow> nat \<Rightarrow> string option list \<Rightarrow> document list \<Rightarrow> document list" where
  "facilities_loop db all_regions query k [] results_list = results_list"
| "facilities_loop db all_regions query k (rgn # rest) results_list =
     (let filter_dict = facility_filter (close_matches db) all_regions rgn
      in case facilities_search db query k filter_dict of
           Inl ex \<Rightarrow> facilities_loop db all_regions query k rest results_list
         | Inr results \<Rightarrow> facilities_loop db all_regions query k rest (results_list @ results))"

text \<open>The loop that fills \<open>unique_results\<close> and \<open>seen_content\<close>.\<close>

fun unique_loop :: "document list \<Rightarrow> document list \<Rightarrow> string set \<Rightarrow> document list" where
  "unique_loop [] unique_results seen_content = unique_results"
| "unique_loop (doc # docs) unique_results seen_content =
     (if page_content doc \<notin> seen_content
      then unique_loop docs (unique_results @ [doc]) (insert (page_content doc) seen_content)
      else unique_loop docs unique_results seen_content)"

text \<open>
  \<open>search_funeral_facilities(query, region, regions)\<close>; \<open>region_json\<close> is the content
  of \<open>facilities_region_list.json\<close>, a dictionary of lists of region names. An empty
  list of regions makes \<open>10 // len(regions)\<close> raise.
\<close>

definition search_funeral_facilities ::
  "info_db \<Rightarrow> (string \<times> string list) list \<Rightarrow> string \<Rightarrow> string option \<Rightarrow> string option list option
     \<Rightarrow> exn + tool_output" where
  "search_funeral_facilities db region_json query region regions =
     (if \<not> info_connected db then Inr (Text DB_ERROR_TEXT)
      else
        (let all_regions = sort (remdups (concat (map snd region_json)));
             regions' = (case regions of None \<Rightarrow> [region] | Some rs \<Rightarrow> rs)
         in if regions' = []
            then Inl (Exn ''ZeroDivisionError'' ''integer division or modulo by zero'')
            else
              (let k = 10 div length regions';
                   results_list = facilities_loop db all_regions query k regions' []
               in Inr (Documents (unique_loop results_list [] {})))))"

section \<open>Concrete collaborators for example runs\<close>

text \<open>
  A model that first requests two tools, one of them unknown, and on its second call
  answers with a text and one more tool request; a tool that raises; a graph run that
  ends with an exception; a clock one hour after a visit stamped \<open>t0\<close>.
\<close>

definition missing_call :: tool_call where
  "missing_call = \<lparr> tc_name = ''no_such_tool'', tc_args = [], tc_id = ''c1'' \<rparr>"

definition legacy_call :: tool_call where
  "legacy_call = \<lparr> tc_name = ''search_legacy'', tc_args = [(''query'', PStr ''tax'')], tc_id = ''c2'' \<rparr>"

definition demo_env :: env where
  "demo_env =
     \<lparr> fromisoformat = (\<lambda>s. if s = ''t0'' then Some 0 else None),
       isoformat = (\<lambda>t. ''t1''),
       now = (\<lambda>k. 3600000000),
       llm_invoke = (\<lambda>ms. if length ms = 2
                            then Inr \<lparr> content = [], tool_calls = [missing_call, legacy_call] \<rparr>
                            else Inr \<lparr> content = ''second'', tool_calls = [legacy_call] \<rparr>),
       tools_by_name = [''search_legacy'' \<mapsto> (\<lambda>a. Inl (Exn ''RuntimeError'' ''boom''))],
       app_stream = (\<lambda>inp. ([], Some (Exn ''GraphRecursionError'' ''limit''))) \<rparr>"

definition faulty_llm_env :: env where
  "faulty_llm_env =
     demo_env \<lparr> llm_invoke := (\<lambda>ms. Inl (Exn ''APIConnectionError'' ''Connection error.'')) \<rparr>"

definition demo_session :: session where
  "demo_session =
     \<lparr> s_user_id = ''u'', last_visit = Some ''t0'', user_profile = Map.empty,
       conversation_history = [Entry ''t0'' ''user'' ''hello''] \<rparr>"

definition demo_store :: store where
  "demo_store = [''u'' \<mapsto> demo_session]"

text \<open>
  A vector index that answers every activity query with six matches (a repeated label, a
  match without metadata) and every question query with two matches, and rules without
  mappings.
\<close>

definition demo_matches :: "match list" where
  "demo_matches =
     [Some [''activity_kr'' \<mapsto> ''walk'', ''FEELING_TAGS'' \<mapsto> ''calm''],
      Some [''activity'' \<mapsto> ''tea''],
      Some [''activity_kr'' \<mapsto> ''walk''],
      None,
      Some [''activity_kr'' \<mapsto> ''sing''],
      Some [''activity_kr'' \<mapsto> ''read'']]"

definition demo_questions :: "match list" where
  "demo_questions =
     [Some [''question_text'' \<mapsto> ''How was your day?'', ''intent'' \<mapsto> ''open''],
      Some [''intent'' \<mapsto> ''none'']]"

definition demo_db :: vector_db where
  "demo_db =
     \<lparr> connected = True,
       index_query = (\<lambda>q k f. case f of
                                ActivityFilter lim \<Rightarrow> Inr demo_matches
                              | QuestionFilter \<Rightarrow> Inr demo_questions) \<rparr>"


text \<open>
  Vector stores for the information tools: the facility search answers a region filter
  on \<open>Suwon\<close> or \<open>Busan\<close> with two documents each, one of them with the same content in
  both, raises without a region filter, and returns nothing for a budget other than 3;
  no region name is similar to another.
\<close>

definition doc_a :: document where
  "doc_a = \<lparr> page_content = ''hall A'', doc_metadata = [(''region'', ''Suwon'')] \<rparr>"

definition doc_a2 :: document where
  "doc_a2 = \<lparr> page_content = ''hall A'', doc_metadata = [(''region'', ''Busan'')] \<rparr>"

definition doc_b :: document where
  "doc_b = \<lparr> page_content = ''hall B'', doc_metadata = [] \<rparr>"

definition doc_c :: document where
  "doc_c = \<lparr> page_content = ''hall C'', doc_metadata = [] \<rparr>"

definition demo_info_db :: info_db where
  "demo_info_db =
     \<lparr> info_connected = True,
       ordinance_search = (\<lambda>q k f. Inr [doc_c]),
       facilities_search =
         (\<lambda>q k f. if k \<noteq> 3 then Inr []
                   else (case f_region f of
                           None \<Rightarrow> Inl (Exn ''TimeoutError'' ''timed out'')
                         | Some (RegionEq r) \<Rightarrow>
                             if r = ''Suwon'' then Inr [doc_a, doc_b]
                             else Inr [doc_a2, doc_c]
                         | Some (RegionIn rs) \<Rightarrow> Inr [])),
       close_matches = (\<lambda>u rs n. []) \<rparr>"

definition demo_region_json :: "(string \<times> string list) list" where
  "demo_region_json = [(''gyeonggi'', [''Suwon'']), (''south'', [''Busan'', ''Suwon''])]"

text \<open>
  The collaborators of \<open>demo_env\<close> with a graph run that completes: one event, in
  which the companion agent answers \<open>hello\<close> without a tool request.
\<close>

definition chat_env :: env where
  "chat_env =
     demo_env \<lparr> app_stream :=
       (\<lambda>inp. ([[(''empathy_agent'', Some [AIMessage \<lparr> content = ''hello'', tool_calls = [] \<rparr>])]],
               None)) \<rparr>"

section \<open>Profile normalization\<close>

lemma set_if_truthy_apply:
  "set_if_truthy k v m k' = (if truthy v \<and> k' = k then Some v else m k')"
  by (simp add: set_if_truthy_def)

text \<open>
  Claim C9. Normalizing a raw profile \<open>p\<close> into a current profile \<open>c\<close> returns a profile
  \<open>r\<close>, and normalizing the same \<open>p\<close> into \<open>r\<close> returns \<open>r\<close> again.
\<close>

theorem normalize_profile_idempotent:
  "\<exists>r. normalize_profile (Some p) c = Inr r \<and> normalize_profile (Some p) r = Inr r"
proof -
  define name where "name = py_or (dict_get p ''name'') (dict_get p ''A1'')"
  define mobility where
    "mobility = py_or (py_or (dict_get p ''mobility'') (dict_get p ''A2'')) (dict_get p ''A4'')"
  define activity_range where
    "activity_range = py_or (py_or (dict_get p ''activity_range'') (dict_get p ''A2'')) (dict_get p ''A4'')"
  define emotion where "emotion = py_or (dict_get p ''emotion'') (dict_get p ''B1'')"
  define upd where
    "upd = (\<lambda>m. set_if_truthy ''emotion'' emotion
                 (set_if_truthy ''activity_range'' activity_range
                   (set_if_truthy ''mobility'' mobility
                     (set_if_truthy ''name'' name (m ++ p)))))"
  have norm: "normalize_profile (Some p) m = Inr (upd m)" for m
    by (simp add: normalize_profile_def upd_def name_def mobility_def activity_range_def
        emotion_def Let_def)
  have "upd (upd c) k = upd c k" for k
    by (simp add: upd_def set_if_truthy_apply map_add_def split: option.splits)
  then have "upd (upd c) = upd c"
    by (rule ext)
  with norm show ?thesis
    by simp
qed

section \<open>Manual single-pass discipline\<close>

lemma run_tool_calls_map:
  "run_tool_calls tools cs acc =
     acc @ map (\<lambda>call. ToolMessage
                 (case tools (tc_name call) of
                    None \<Rightarrow> tool_not_found_text (tc_name call)
                  | Some tool \<Rightarrow> (case tool (tc_args call) of
                                   Inl ex \<Rightarrow> tool_failed_text ex
                                 | Inr r \<Rightarrow> r))
                 (tc_id call)) cs"
  by (induction cs arbitrary: acc) (auto split: option.splits sum.splits)

text \<open>
  Claim C1. A turn of the information mode calls the model at most twice. The first
  call is always made; the second is made exactly when the first call returned a
  response that requests tools; and whatever the second response requests, its text is
  what the flow returns.
\<close>

theorem info_flow_at_most_two_invocations:
  "length (fst (run_info_flow e prof text uid hist)) \<le> 2
   \<and> (fst (run_info_flow e prof text uid hist) =
          [LLMInvoke ([SystemMessage info_system_prompt] @ hist @ [HumanMessage text])]
        \<or> (\<exists>m2. fst (run_info_flow e prof text uid hist) =
          [LLMInvoke ([SystemMessage info_system_prompt] @ hist @ [HumanMessage text]), LLMInvoke m2]))
   \<and> (length (fst (run_info_flow e prof text uid hist)) = 2
        \<longleftrightarrow> (\<exists>ai. llm_invoke e ([SystemMessage info_system_prompt] @ hist @ [HumanMessage text]) = Inr ai
                  \<and> tool_calls ai \<noteq> []))
   \<and> (\<forall>m1 m2 final. fst (run_info_flow e prof text uid hist) = [LLMInvoke m1, LLMInvoke m2]
          \<and> llm_invoke e m2 = Inr final
        \<longrightarrow> snd (run_info_flow e prof text uid hist) = Inr (content final))"
  by (auto simp: run_info_flow_def Let_def split: sum.splits)

text \<open>
  In the example run the second response requests a tool again; two calls are made and
  the text of the second response is returned.
\<close>

theorem info_flow_at_most_two_invocations_witness:
  "length (fst (run_info_flow demo_env Map.empty ''q'' ''u'' [])) = 2
   \<and> snd (run_info_flow demo_env Map.empty ''q'' ''u'' []) = Inr ''second''"
  using info_flow_at_most_two_invocations [of demo_env Map.empty "''q''" "''u''" "[]"]
  by (simp add: run_info_flow_def demo_env_def missing_call_def legacy_call_def Let_def)

lemma run_info_flow_tool_round:
  assumes "llm_invoke e ([SystemMessage info_system_prompt] @ hist @ [HumanMessage text]) = Inr ai"
    and "tool_calls ai \<noteq> []"
  shows "run_info_flow e prof text uid hist =
     (let m1 = [SystemMessage info_system_prompt] @ hist @ [HumanMessage text];
          tool_messages =
            map (\<lambda>call. ToolMessage
                   (case tools_by_name e (tc_name call) of
                      None \<Rightarrow> tool_not_found_text (tc_name call)
                    | Some tool \<Rightarrow> (case tool (tc_args call) of
                                     Inl ex \<Rightarrow> tool_failed_text ex
                                   | Inr r \<Rightarrow> r))
                   (tc_id call)) (tool_calls ai);
          m2 = m1 @ [AIMessage ai] @ tool_messages
      in ([LLMInvoke m1, LLMInvoke m2],
          case llm_invoke e m2 of Inl ex \<Rightarrow> Inl ex | Inr final \<Rightarrow> Inr (content final)))"
  using assms
  by (simp add: run_info_flow_def Let_def run_tool_calls_map split: sum.splits)

text \<open>
  Claim C6. When the first response requests tools, every requested call yields one
  tool message, in the order of the requests. For a name outside the registry its
  content is the name between single quotes followed by the fixed Korean sentence
  "... tool could not be found."; for a tool that raises it is the fixed Korean prefix
  "tool execution failed", a colon and a space, followed by the text of the exception;
  otherwise it is the tool's result. All of them are appended and the second model call
  is made; no tool fault leaves the flow. The two texts are written out byte by byte.
\<close>

theorem tool_faults_become_tool_results:
  assumes "llm_invoke e ([SystemMessage info_system_prompt] @ hist @ [HumanMessage text]) = Inr ai"
    and "tool_calls ai \<noteq> []"
  shows "run_info_flow e prof text uid hist =
     (let m1 = [SystemMessage info_system_prompt] @ hist @ [HumanMessage text];
          tool_messages =
            map (\<lambda>call. ToolMessage
                   (case tools_by_name e (tc_name call) of
                      None \<Rightarrow> [CHR 0x27] @ tc_name call @ [CHR 0x27] @ '' '' @ [CHR 0xEB, CHR 0x8F, CHR 0x84, CHR 0xEA, CHR 0xB5, CHR 0xAC, CHR 0xEB, CHR 0xA5, CHR 0xBC] @ '' '' @ [CHR 0xEC, CHR 0xB0, CHR 0xBE, CHR 0xEC, CHR 0x9D, CHR 0x84] @ '' '' @ [CHR 0xEC, CHR 0x88, CHR 0x98] @ '' '' @ [CHR 0xEC, CHR 0x97, CHR 0x86, CHR 0xEC, CHR 0x8A, CHR 0xB5, CHR 0xEB, CHR 0x8B, CHR 0x88, CHR 0xEB, CHR 0x8B, CHR 0xA4] @ ''.''
                    | Some tool \<Rightarrow> (case tool (tc_args call) of
                                     Inl ex \<Rightarrow> [CHR 0xEB, CHR 0x8F, CHR 0x84, CHR 0xEA, CHR 0xB5, CHR 0xAC] @ '' '' @ [CHR 0xEC, CHR 0x8B, CHR 0xA4, CHR 0xED, CHR 0x96, CHR 0x89] @ '' '' @ [CHR 0xEC, CHR 0x8B, CHR 0xA4, CHR 0xED, CHR 0x8C, CHR 0xA8] @ '': '' @ exn_str ex
                                   | Inr r \<Rightarrow> r))
                   (tc_id call)) (tool_calls ai);
          m2 = m1 @ [AIMessage ai] @ tool_messages
      in ([LLMInvoke m1, LLMInvoke m2],
          case llm_invoke e m2 of Inl ex \<Rightarrow> Inl ex | Inr final \<Rightarrow> Inr (content final)))"
  using run_info_flow_tool_round [OF assms, of prof uid]
  unfolding tool_not_found_text_def tool_failed_text_def .

text \<open>
  The example run requests an unknown tool and a tool that raises \<open>boom\<close>: the second
  model call receives both texts.
\<close>

theorem tool_faults_become_tool_results_witness:
  "run_info_flow demo_env Map.empty ''q'' ''u'' [] =
     ([LLMInvoke [SystemMessage info_system_prompt, HumanMessage ''q''],
       LLMInvoke [SystemMessage info_system_prompt, HumanMessage ''q'',
                  AIMessage \<lparr> content = [], tool_calls = [missing_call, legacy_call] \<rparr>,
                  ToolMessage ([CHR 0x27] @ ''no_such_tool'' @ [CHR 0x27] @ '' '' @ [CHR 0xEB, CHR 0x8F, CHR 0x84, CHR 0xEA, CHR 0xB5, CHR 0xAC, CHR 0xEB, CHR 0xA5, CHR 0xBC] @ '' '' @ [CHR 0xEC, CHR 0xB0, CHR 0xBE, CHR 0xEC, CHR 0x9D, CHR 0x84] @ '' '' @ [CHR 0xEC, CHR 0x88, CHR 0x98] @ '' '' @ [CHR 0xEC, CHR 0x97, CHR 0x86, CHR 0xEC, CHR 0x8A, CHR 0xB5, CHR 0xEB, CHR 0x8B, CHR 0x88, CHR 0xEB, CHR 0x8B, CHR 0xA4] @ ''.'') ''c1'',
                  ToolMessage ([CHR 0xEB, CHR 0x8F, CHR 0x84, CHR 0xEA, CHR 0xB5, CHR 0xAC] @ '' '' @ [CHR 0xEC, CHR 0x8B, CHR 0xA4, CHR 0xED, CHR 0x96, CHR 0x89] @ '' '' @ [CHR 0xEC, CHR 0x8B, CHR 0xA4, CHR 0xED, CHR 0x8C, CHR 0xA8] @ '': boom'') ''c2'']],
      Inr ''second'')"
  using tool_faults_become_tool_results
          [of demo_env "[]" "''q''" "\<lparr> content = [], tool_calls = [missing_call, legacy_call] \<rparr>"
              Map.empty "''u''"]
  by (simp add: demo_env_def missing_call_def legacy_call_def Let_def)

section \<open>Faults at the entry point\<close>

lemma stream_exception_caught:
  "app_stream e inp = (evs, Some ex) \<Longrightarrow> \<exists>ex'. drive_graph e inp = Inl ex'"
  by (auto simp: drive_graph_def split: sum.splits)

lemma chat_returns_string:
  "mode \<noteq> ''info'' \<Longrightarrow> \<exists>s. returned (process_user_message e st uid text mode) = Inr s"
  by (auto simp: process_user_message_def Let_def split: sum.splits option.splits)

text \<open>
  Claim C5. When driving the graph raises, in any mode other than \<open>info\<close>, the entry
  point returns the fixed error text, the graph has been run once, and the session store
  is the one the call started with.
\<close>

theorem faulted_graph_turn:
  assumes "mode \<noteq> ''info''"
    and "drive_graph e (turn_inputs st uid text mode) = Inl ex"
  shows "process_user_message e st uid text mode =
           \<lparr> returned = Inr SYSTEM_ERROR_TEXT, store_after = st,
             calls = [GraphStream (turn_inputs st uid text mode)] \<rparr>"
  using assms by (simp add: process_user_message_def Let_def)

theorem faulted_graph_turn_witness:
  "process_user_message demo_env demo_store ''u'' ''hi'' ''chat'' =
     \<lparr> returned = Inr SYSTEM_ERROR_TEXT, store_after = demo_store,
       calls = [GraphStream (turn_inputs demo_store ''u'' ''hi'' ''chat'')] \<rparr>"
  using faulted_graph_turn
          [of "''chat''" demo_env demo_store "''u''" "''hi''" "Exn ''GraphRecursionError'' ''limit''"]
  by (simp add: drive_graph_def demo_env_def)

text \<open>
  Claim C4, evaluated where it fails. With a model whose invocation raises, the entry
  point in mode \<open>info\<close> lets the exception out, while in mode \<open>chat\<close> the same
  collaborators give the fixed error text.
\<close>

theorem info_mode_model_fault_escapes:
  "returned (process_user_message faulty_llm_env demo_store ''u'' ''q'' ''info'')
     = Inl (Exn ''APIConnectionError'' ''Connection error.'')
   \<and> returned (process_user_message faulty_llm_env demo_store ''u'' ''q'' ''chat'')
     = Inr SYSTEM_ERROR_TEXT"
  by (simp add: process_user_message_def run_info_flow_def faulty_llm_env_def demo_env_def
      drive_graph_def Let_def)

section \<open>Welcome-back policy\<close>

lemma greeting_nonempty:
  "greeting_first_time t \<noteq> []" "greeting_continue t \<noteq> []" "greeting_rested t \<noteq> []"
  "greeting_long_time t \<noteq> []" "greeting_plain t \<noteq> []"
  by (simp_all add: greeting_first_time_def greeting_continue_def greeting_rested_def
      greeting_long_time_def greeting_plain_def hello_kr_def)

lemma get_welcome_message_nonempty: "get_welcome_message fromiso t st uid \<noteq> []"
  by (simp add: get_welcome_message_def Let_def greeting_nonempty split: option.splits)

lemma welcome_policy_functions:
  "(should_show_welcome fromiso t s mode \<longleftrightarrow>
      mode = ''chat'' \<and> conversation_history s \<noteq> [] \<and>
      (\<exists>lv last_dt. last_visit s = Some lv \<and> lv \<noteq> [] \<and> fromiso lv = Some last_dt
          \<and> t - last_dt > 30 * 60 * 1000000))
   \<and> (\<forall>lv last_dt. last_visit (load_session st uid) = Some lv \<and> lv \<noteq> [] \<and> fromiso lv = Some last_dt \<longrightarrow>
         get_welcome_message fromiso t' st uid =
           (let title = welcome_title (user_profile (load_session st uid));
                days = (t' - last_dt) div (24 * 60 * 60 * 1000000)
            in if days = 0 then greeting_continue title
               else if days = 1 then greeting_rested title
               else greeting_long_time title))
   \<and> (last_visit (load_session st uid) = None \<longrightarrow>
         get_welcome_message fromiso t' st uid =
           greeting_first_time (welcome_title (user_profile (load_session st uid))))"
  by (auto simp: should_show_welcome_def get_welcome_message_def Let_def timedelta_days_def
      timedelta_minutes_def WELCOME_COOLDOWN_MINUTES_def split: option.splits)

lemma completed_turn_reply:
  assumes "mode \<noteq> ''info''" and "drive_graph e (turn_inputs st uid text mode) = Inr r"
  shows "returned (process_user_message e st uid text mode) =
           Inr (case welcome_text_of e st uid mode of
                  None \<Rightarrow> r
                | Some w \<Rightarrow> if r \<noteq> [] then w @ [CHR 0x0A, CHR 0x0A] @ r else w)"
proof -
  have "w \<noteq> []" if "welcome_text_of e st uid mode = Some w" for w
    using that get_welcome_message_nonempty
    by (auto simp: welcome_text_of_def split: if_splits)
  with assms show ?thesis
    by (auto simp: process_user_message_def Let_def split: option.splits)
qed

text \<open>
  Claim C3, as amended. A turn has a welcome text exactly when the mode is \<open>chat\<close>,
  the stored history is not empty, and the stored last visit is a timestamp more than
  thirty minutes before the clock reading. That text is chosen by the whole days elapsed
  since the last visit: the "continue" text for 0 days, the "rested" text for 1 day, the
  "long time" text otherwise. When the graph run of the turn completes, the reply is the
  welcome text, a blank line and the text of the run (the welcome text alone when the run
  gave no text), and the text of the run alone when there is no welcome text. Without a
  last visit, \<open>get_welcome_message\<close> returns the first-time greeting.
\<close>

theorem welcome_back_turn:
  "(welcome_text_of e st uid mode \<noteq> None \<longleftrightarrow>
      mode = ''chat'' \<and> conversation_history (load_session st uid) \<noteq> [] \<and>
      (\<exists>lv last_dt. last_visit (load_session st uid) = Some lv \<and> lv \<noteq> []
          \<and> fromisoformat e lv = Some last_dt
          \<and> now e 0 - last_dt > 30 * 60 * 1000000))
   \<and> (\<forall>w. welcome_text_of e st uid mode = Some w \<longrightarrow>
         (\<exists>lv last_dt. last_visit (load_session st uid) = Some lv \<and> lv \<noteq> []
            \<and> fromisoformat e lv = Some last_dt
            \<and> w = (let title = welcome_title (user_profile (load_session st uid));
                        days = (now e 1 - last_dt) div (24 * 60 * 60 * 1000000)
                    in if days = 0 then greeting_continue title
                       else if days = 1 then greeting_rested title
                       else greeting_long_time title)))
   \<and> (\<forall>r. mode \<noteq> ''info'' \<and> drive_graph e (turn_inputs st uid text mode) = Inr r \<longrightarrow>
         returned (process_user_message e st uid text mode) =
           Inr (case welcome_text_of e st uid mode of
                  None \<Rightarrow> r
                | Some w \<Rightarrow> if r \<noteq> [] then w @ [CHR 0x0A, CHR 0x0A] @ r else w))
   \<and> (last_visit (load_session st uid) = None \<longrightarrow>
         get_welcome_message (fromisoformat e) t' st uid =
           greeting_first_time (welcome_title (user_profile (load_session st uid))))"
proof (intro conjI allI impI)
  show "(welcome_text_of e st uid mode \<noteq> None) =
      (mode = ''chat'' \<and> conversation_history (load_session st uid) \<noteq> [] \<and>
      (\<exists>lv last_dt. last_visit (load_session st uid) = Some lv \<and> lv \<noteq> []
          \<and> fromisoformat e lv = Some last_dt
          \<and> now e 0 - last_dt > 30 * 60 * 1000000))"
    using welcome_policy_functions [of "fromisoformat e" "now e 0" "load_session st uid" mode]
    by (simp add: welcome_text_of_def)
next
  fix w
  assume w: "welcome_text_of e st uid mode = Some w"
  then have show_it: "should_show_welcome (fromisoformat e) (now e 0) (load_session st uid) mode"
    and w_def: "w = get_welcome_message (fromisoformat e) (now e 1) st uid"
    by (auto simp: welcome_text_of_def split: if_splits)
  from show_it welcome_policy_functions [of "fromisoformat e" "now e 0" "load_session st uid" mode]
  obtain lv last_dt where
    lv: "last_visit (load_session st uid) = Some lv" "lv \<noteq> []" "fromisoformat e lv = Some last_dt"
    by auto
  with welcome_policy_functions [of "fromisoformat e" _ _ _ st uid "now e 1"] w_def
  have "w = (let title = welcome_title (user_profile (load_session st uid));
                 days = (now e 1 - last_dt) div (24 * 60 * 60 * 1000000)
             in if days = 0 then greeting_continue title
                else if days = 1 then greeting_rested title
                else greeting_long_time title)"
    by blast
  with lv show "\<exists>lv last_dt. last_visit (load_session st uid) = Some lv \<and> lv \<noteq> []
            \<and> fromisoformat e lv = Some last_dt
            \<and> w = (let title = welcome_title (user_profile (load_session st uid));
                        days = (now e 1 - last_dt) div (24 * 60 * 60 * 1000000)
                    in if days = 0 then greeting_continue title
                       else if days = 1 then greeting_rested title
                       else greeting_long_time title)"
    by blast
next
  fix r
  assume "mode \<noteq> ''info'' \<and> drive_graph e (turn_inputs st uid text mode) = Inr r"
  then show "returned (process_user_message e st uid text mode) =
           Inr (case welcome_text_of e st uid mode of
                  None \<Rightarrow> r
                | Some w \<Rightarrow> if r \<noteq> [] then w @ [CHR 0x0A, CHR 0x0A] @ r else w)"
    using completed_turn_reply by blast
next
  assume "last_visit (load_session st uid) = None"
  then show "get_welcome_message (fromisoformat e) t' st uid =
           greeting_first_time (welcome_title (user_profile (load_session st uid)))"
    using welcome_policy_functions [of "fromisoformat e" _ _ _ st uid t'] by blast
qed

text \<open>
  A visit one hour after the last one, with a graph run that answers \<open>hello\<close>: the
  "continue" greeting is put before the answer.
\<close>

theorem welcome_back_turn_witness:
  "welcome_text_of chat_env demo_store ''u'' ''chat'' = Some (greeting_continue nim)
   \<and> returned (process_user_message chat_env demo_store ''u'' ''hi'' ''chat'') =
       Inr (greeting_continue nim @ [CHR 0x0A, CHR 0x0A] @ ''hello'')"
proof -
  have s: "load_session demo_store ''u'' = demo_session"
    by (simp add: load_session_def demo_store_def)
  have title: "welcome_title (user_profile (load_session demo_store ''u'')) = nim"
    by (simp add: s welcome_title_def demo_session_def dict_get_default_def py_or_def)
  have lvf: "last_visit (load_session demo_store ''u'') = Some ''t0''"
    by (simp add: s demo_session_def)
  have hist: "conversation_history (load_session demo_store ''u'') \<noteq> []"
    by (simp add: s demo_session_def)
  have cond: "''chat'' = ''chat'' \<and> conversation_history (load_session demo_store ''u'') \<noteq> [] \<and>
      (\<exists>lv last_dt. last_visit (load_session demo_store ''u'') = Some lv \<and> lv \<noteq> []
          \<and> fromisoformat chat_env lv = Some last_dt
          \<and> now chat_env 0 - last_dt > 30 * 60 * 1000000)"
    by (simp add: s demo_session_def chat_env_def demo_env_def)
  have run: "drive_graph chat_env (turn_inputs demo_store ''u'' ''hi'' ''chat'') = Inr ''hello''"
    by (simp add: drive_graph_def chat_env_def demo_env_def)
  note t = welcome_back_turn [of chat_env demo_store "''u''" "''chat''" "''hi''"]
  from t cond obtain w where w: "welcome_text_of chat_env demo_store ''u'' ''chat'' = Some w"
    by blast
  with t obtain lv last_dt where
    lv: "last_visit (load_session demo_store ''u'') = Some lv" "fromisoformat chat_env lv = Some last_dt"
    and wv: "w = (let title = welcome_title (user_profile (load_session demo_store ''u''));
                       days = (now chat_env 1 - last_dt) div (24 * 60 * 60 * 1000000)
                   in if days = 0 then greeting_continue title
                      else if days = 1 then greeting_rested title
                      else greeting_long_time title)"
    by blast
  from lv have "last_dt = 0"
    by (simp add: s demo_session_def chat_env_def demo_env_def)
  with wv have "w = greeting_continue nim"
    by (simp add: title Let_def chat_env_def demo_env_def)
  with w have 1: "welcome_text_of chat_env demo_store ''u'' ''chat'' = Some (greeting_continue nim)"
    by simp
  from t run have "returned (process_user_message chat_env demo_store ''u'' ''hi'' ''chat'') =
           Inr (case welcome_text_of chat_env demo_store ''u'' ''chat'' of
                  None \<Rightarrow> ''hello''
                | Some w \<Rightarrow> if ''hello'' \<noteq> [] then w @ [CHR 0x0A, CHR 0x0A] @ ''hello'' else w)"
    by simp
  with 1 show ?thesis by simp
qed

text \<open>
  Claim C3 as stated fails on a turn whose graph run raises: the last visit exists, the
  history is not empty and one hour has passed, the welcome text has been computed, and
  the reply is the fixed error text, which does not contain the greeting.
\<close>

theorem welcome_not_shown_on_fault:
  "last_visit (load_session demo_store ''u'') = Some ''t0''
   \<and> fromisoformat demo_env ''t0'' = Some 0
   \<and> now demo_env 0 - 0 > 30 * 60 * 1000000
   \<and> conversation_history (load_session demo_store ''u'') \<noteq> []
   \<and> welcome_text_of demo_env demo_store ''u'' ''chat'' = Some (greeting_continue nim)
   \<and> returned (process_user_message demo_env demo_store ''u'' ''hi'' ''chat'') = Inr SYSTEM_ERROR_TEXT
   \<and> \<not> sublist (greeting_continue nim) SYSTEM_ERROR_TEXT"
proof -
  have s: "load_session demo_store ''u'' = demo_session"
    by (simp add: load_session_def demo_store_def)
  have title: "welcome_title (user_profile (load_session demo_store ''u'')) = nim"
    by (simp add: s welcome_title_def demo_session_def dict_get_default_def py_or_def)
  have lvf: "last_visit (load_session demo_store ''u'') = Some ''t0''"
    by (simp add: s demo_session_def)
  have hist: "conversation_history (load_session demo_store ''u'') \<noteq> []"
    by (simp add: s demo_session_def)
  have w: "welcome_text_of demo_env demo_store ''u'' ''chat'' = Some (greeting_continue nim)"
    by (simp add: welcome_text_of_def should_show_welcome_def get_welcome_message_def title lvf
        hist demo_env_def timedelta_minutes_def timedelta_days_def
        WELCOME_COOLDOWN_MINUTES_def Let_def)
  have r: "returned (process_user_message demo_env demo_store ''u'' ''hi'' ''chat'') = Inr SYSTEM_ERROR_TEXT"
    by (simp add: process_user_message_def drive_graph_def demo_env_def Let_def)
  have "length SYSTEM_ERROR_TEXT < length (greeting_continue nim)"
    by (simp add: SYSTEM_ERROR_TEXT_def greeting_continue_def nim_def)
  then have n: "\<not> sublist (greeting_continue nim) SYSTEM_ERROR_TEXT"
    using sublist_length_le by fastforce
  from w r n lvf hist show ?thesis
    by (simp add: demo_env_def)
qed

section \<open>Deduplication caches of the companion tools\<close>













subsection \<open>Empathy questions\<close>

lemma pick_questions_only_fresh:
  "x \<in> fst (pick_questions ms already seen qs) \<Longrightarrow>
     x \<in> seen \<or> (\<exists>m \<in> set ms. metadata_of m ''question_text'' = Some x \<and> x \<noteq> [] \<and> x \<notin> already)"
  by (induction ms arbitrary: seen qs) (auto simp: Let_def split: option.splits if_splits)

lemma pick_questions_exhausted:
  "\<forall>m \<in> set ms. (case metadata_of m ''question_text'' of
                      None \<Rightarrow> True
                    | Some q \<Rightarrow> q = [] \<or> q \<in> already)
     \<Longrightarrow> pick_questions ms already seen qs = (seen, qs)"
  by (induction ms arbitrary: seen qs) (auto simp: Let_def split: option.splits)

lemma fallback_lines_map:
  "\<forall>m \<in> set ms. m \<noteq> None
     \<Longrightarrow> fallback_lines ms = Inr (map (\<lambda>m. question_line (metadata_of m)) ms)"
  by (induction ms) (auto simp: metadata_of_def split: option.splits)

lemma asked_only_grows_by_fresh:
  assumes "q \<in> snd (search_empathy_questions_tool db asked ctx depth user_id kws) u"
  shows "q \<in> asked u \<or>
         (u = cache_key user_id \<and>
          (\<exists>matches m. index_query db (question_query ctx kws) (nat (3 + max 1 (min depth 3)))
                          QuestionFilter = Inr matches
             \<and> m \<in> set matches \<and> metadata_of m ''question_text'' = Some q
             \<and> q \<noteq> [] \<and> q \<notin> asked u))"
proof (cases "q \<in> asked u")
  case True
  then show ?thesis by simp
next
  case False
  let ?k = "nat (3 + max 1 (min depth 3))"
  from assms False obtain matches where
    q: "index_query db (question_query ctx kws) ?k QuestionFilter = Inr matches"
    and u: "u = cache_key user_id"
    and mem: "q \<in> fst (pick_questions matches (asked u) {} [])"
    by (auto simp: search_empathy_questions_tool_def Let_def
        split: if_splits sum.splits prod.splits)
  from pick_questions_only_fresh [OF mem] q u show ?thesis by auto
qed

text \<open>
  Claim C10. A question enters the user's set of asked questions only when it is the
  non-empty text of a retrieved match and was not in the set before. When the index
  returns matches, all with metadata, and none of them has a text outside the set, the
  tool returns the lines of the first three matches and leaves the cache unchanged, so
  the same call made again returns the same.
\<close>

theorem fallback_questions_not_recorded:
  "(\<forall>q u. q \<in> snd (search_empathy_questions_tool db asked ctx depth user_id kws) u \<longrightarrow>
        q \<in> asked u \<or>
        (u = cache_key user_id \<and>
         (\<exists>matches m. index_query db (question_query ctx kws) (nat (3 + max 1 (min depth 3)))
                         QuestionFilter = Inr matches
            \<and> m \<in> set matches \<and> metadata_of m ''question_text'' = Some q
            \<and> q \<noteq> [] \<and> q \<notin> asked u)))
   \<and> (\<forall>matches.
         connected db
         \<and> index_query db (question_query ctx kws) (nat (3 + max 1 (min depth 3))) QuestionFilter
             = Inr matches
         \<and> matches \<noteq> []
         \<and> (\<forall>m \<in> set matches. m \<noteq> None)
         \<and> (\<forall>m \<in> set matches. (case metadata_of m ''question_text'' of
                                    None \<Rightarrow> True
                                  | Some q \<Rightarrow> q = [] \<or> q \<in> asked (cache_key user_id)))
       \<longrightarrow> search_empathy_questions_tool db asked ctx depth user_id kws =
             (Inr (py_join [CHR 0x0A] (map (\<lambda>m. question_line (metadata_of m)) (take 3 matches))),
              asked)
           \<and> search_empathy_questions_tool db
                (snd (search_empathy_questions_tool db asked ctx depth user_id kws))
                ctx depth user_id kws =
              search_empathy_questions_tool db asked ctx depth user_id kws)"
proof (intro conjI allI impI)
  fix q u
  assume "q \<in> snd (search_empathy_questions_tool db asked ctx depth user_id kws) u"
  then show "q \<in> asked u \<or>
        (u = cache_key user_id \<and>
         (\<exists>matches m. index_query db (question_query ctx kws) (nat (3 + max 1 (min depth 3)))
                         QuestionFilter = Inr matches
            \<and> m \<in> set matches \<and> metadata_of m ''question_text'' = Some q
            \<and> q \<noteq> [] \<and> q \<notin> asked u))"
    by (rule asked_only_grows_by_fresh)
next
  fix matches
  assume h: "connected db
         \<and> index_query db (question_query ctx kws) (nat (3 + max 1 (min depth 3))) QuestionFilter
             = Inr matches
         \<and> matches \<noteq> []
         \<and> (\<forall>m \<in> set matches. m \<noteq> None)
         \<and> (\<forall>m \<in> set matches. (case metadata_of m ''question_text'' of
                                    None \<Rightarrow> True
                                  | Some q \<Rightarrow> q = [] \<or> q \<in> asked (cache_key user_id)))"
  then have stale: "pick_questions matches (asked (cache_key user_id)) {} [] = ({}, [])"
    by (intro pick_questions_exhausted) simp
  from h have "\<forall>m \<in> set (take 3 matches). m \<noteq> None"
    by (auto dest: in_set_takeD)
  then have fb: "fallback_lines (take 3 matches) =
                   Inr (map (\<lambda>m. question_line (metadata_of m)) (take 3 matches))"
    by (rule fallback_lines_map)
  from h have ne: "take 3 matches \<noteq> []" by (cases matches) auto
  have keep: "asked(cache_key user_id := asked (cache_key user_id)) = asked" by simp
  show first: "search_empathy_questions_tool db asked ctx depth user_id kws =
             (Inr (py_join [CHR 0x0A] (map (\<lambda>m. question_line (metadata_of m)) (take 3 matches))),
              asked)"
    using h stale fb ne by (simp add: search_empathy_questions_tool_def Let_def)
  show "search_empathy_questions_tool db
                (snd (search_empathy_questions_tool db asked ctx depth user_id kws))
                ctx depth user_id kws =
              search_empathy_questions_tool db asked ctx depth user_id kws"
    by (simp add: first)
qed



theorem fallback_questions_not_recorded_witness:
  "search_empathy_questions_tool demo_db (\<lambda>u. {''How was your day?''}) ''ctx'' 1 ''u'' [] =
     (Inr (py_join [CHR 0x0A]
            [question_line [''question_text'' \<mapsto> ''How was your day?'', ''intent'' \<mapsto> ''open''],
             question_line [''intent'' \<mapsto> ''none'']]),
      \<lambda>u. {''How was your day?''})"
proof -
  let ?asked = "\<lambda>u::string. {''How was your day?''}"
  have stale: "connected demo_db
      \<and> index_query demo_db (question_query ''ctx'' []) (nat (3 + max 1 (min 1 3))) QuestionFilter
          = Inr demo_questions
      \<and> demo_questions \<noteq> []
      \<and> (\<forall>m \<in> set demo_questions. m \<noteq> None)
      \<and> (\<forall>m \<in> set demo_questions. (case metadata_of m ''question_text'' of
                                        None \<Rightarrow> True
                                      | Some q \<Rightarrow> q = [] \<or> q \<in> ?asked (cache_key ''u'')))"
    by (simp add: demo_db_def demo_questions_def metadata_of_def)
  with fallback_questions_not_recorded [of demo_db ?asked "''ctx''" 1 "''u''" "[]"]
  have "search_empathy_questions_tool demo_db ?asked ''ctx'' 1 ''u'' [] =
          (Inr (py_join [CHR 0x0A]
                 (map (\<lambda>m. question_line (metadata_of m)) (take 3 demo_questions))), ?asked)"
    by blast
  then show ?thesis
    by (simp add: demo_questions_def metadata_of_def)
qed

section \<open>Region-scoped search\<close>

lemma containment_loop_filter:
  assumes "length acc < n"
  shows "containment_loop u rs n acc =
     (let hits = filter (\<lambda>region. sublist u region \<or> sublist region u) rs
      in if length acc + length hits \<ge> n then Inl (acc @ take (n - length acc) hits)
         else Inr (acc @ hits))"
  using assms
proof (induction rs arbitrary: acc)
  case Nil
  then show ?case by simp
next
  case (Cons r rs)
  show ?case
  proof (cases "sublist u r \<or> sublist r u")
    case False
    with Cons show ?thesis by simp
  next
    case hit: True
    show ?thesis
    proof (cases "length (acc @ [r]) \<ge> n")
      case True
      with Cons.prems have "n - length acc = 1" by simp
      with hit True show ?thesis by (simp add: Let_def)
    next
      case False
      then have short: "length (acc @ [r]) < n" by simp
      then have split: "n - length acc = Suc (n - Suc (length acc))" by simp
      from Cons.IH [OF short] hit False show ?thesis
        by (simp add: Let_def split)
    qed
  qed
qed

lemma find_matching_regions_two_pass:
  assumes "n \<ge> 1"
  shows "find_matching_regions close u rs n =
     (let hits = filter (\<lambda>region. sublist u region \<or> sublist region u) rs
      in if hits \<noteq> [] then Some (take n hits)
         else if close u rs n \<noteq> [] then Some (close u rs n)
         else None)"
proof -
  from assms have "length ([]::string list) < n" by simp
  from containment_loop_filter [OF this, of u rs] assms show ?thesis
    by (auto simp: find_matching_regions_def Let_def)
qed

text \<open>
  Claim C8. For a count of at least one, the regions found are the first \<open>n\<close> canonical
  regions that contain the input or are contained in it; the similarity matching is
  consulted only when there is no such region. In the ordinance search, one matched
  region constrains the field \<open>region\<close> to that region itself, no matched region leaves
  the filter with its type entry only, and the store is searched with that filter.
\<close>

theorem ordinance_region_resolution:
  "(\<forall>n \<ge> 1. find_matching_regions close u rs n =
     (let hits = filter (\<lambda>region. sublist u region \<or> sublist region u) rs
      in if hits \<noteq> [] then Some (take n hits)
         else if close u rs n \<noteq> [] then Some (close u rs n)
         else None))
   \<and> (\<forall>r. u \<noteq> [] \<and> find_matching_regions close u rs 3 = Some [r] \<longrightarrow>
         ordinance_filter close rs (Some u) =
           \<lparr> f_type = Some ''Public_Funeral_Ordinance'', f_region = Some (RegionEq r) \<rparr>)
   \<and> (\<forall>r. u \<noteq> [] \<and> filter (\<lambda>region. sublist u region \<or> sublist region u) rs = [r] \<longrightarrow>
         ordinance_filter close rs (Some u) =
           \<lparr> f_type = Some ''Public_Funeral_Ordinance'', f_region = Some (RegionEq r) \<rparr>)
   \<and> (find_matching_regions close u rs 3 = None \<longrightarrow>
         ordinance_filter close rs (Some u) =
           \<lparr> f_type = Some ''Public_Funeral_Ordinance'', f_region = None \<rparr>)
   \<and> (info_connected db \<longrightarrow>
         search_public_funeral_ordinance db rs query (Some u) =
           (case ordinance_search db query 3 (ordinance_filter (close_matches db) rs (Some u)) of
              Inl ex \<Rightarrow> Inl ex
            | Inr results \<Rightarrow> Inr (Documents results)))"
  by (auto simp: find_matching_regions_two_pass ordinance_filter_def with_region_def
      search_public_funeral_ordinance_def Let_def)


subsection \<open>Facility search\<close>

lemma facilities_loop_concat:
  "facilities_loop db all_regions query k rgns acc =
     acc @ concat (map (\<lambda>rgn. case facilities_search db query k
                                     (facility_filter (close_matches db) all_regions rgn) of
                                Inl ex \<Rightarrow> []
                              | Inr results \<Rightarrow> results) rgns)"
  by (induction rgns arbitrary: acc) (auto simp: Let_def split: sum.splits)

lemma unique_loop_append:
  "unique_loop docs acc seen = acc @ unique_loop docs [] seen"
proof (induction docs arbitrary: acc seen)
  case Nil
  then show ?case by simp
next
  case (Cons d docs)
  from Cons [of "acc @ [d]"] Cons [of "[d]"] Cons [of acc] show ?case by simp
qed

lemma remdups_snoc:
  "remdups (ys @ [x]) = filter (\<lambda>y. y \<noteq> x) (remdups ys) @ [x]"
  by (induction ys) auto

lemma keep_first_Cons:
  "rev (remdups (rev (x # xs))) = x # filter (\<lambda>y. y \<noteq> x) (rev (remdups (rev xs)))"
  by (simp add: remdups_snoc rev_filter)

lemma unique_loop_contents:
  "map page_content (unique_loop docs [] seen) =
     filter (\<lambda>c. c \<notin> seen) (rev (remdups (rev (map page_content docs))))"
proof (induction docs arbitrary: seen)
  case Nil
  then show ?case by simp
next
  case (Cons d docs)
  let ?K = "rev (remdups (rev (map page_content docs)))"
  have K: "rev (remdups (rev (map page_content (d # docs)))) =
             page_content d # filter (\<lambda>y. y \<noteq> page_content d) ?K"
    using keep_first_Cons [of "page_content d" "map page_content docs"] by simp
  show ?case
  proof (cases "page_content d \<in> seen")
    case True
    then have "filter (\<lambda>c. c \<notin> seen) (filter (\<lambda>y. y \<noteq> page_content d) ?K) =
                 filter (\<lambda>c. c \<notin> seen) ?K"
      by (auto intro: filter_cong)
    with True Cons [of seen] show ?thesis
      by (simp only: K) simp
  next
    case False
    have "filter (\<lambda>c. c \<notin> insert (page_content d) seen) ?K =
            filter (\<lambda>c. c \<notin> seen) (filter (\<lambda>y. y \<noteq> page_content d) ?K)"
      by (auto intro: filter_cong)
    with False Cons [of "insert (page_content d) seen"]
      unique_loop_append [of docs "[d]" "insert (page_content d) seen"]
    show ?thesis
      by (simp only: K) simp
  qed
qed

lemma unique_loop_first_seen:
  "d \<in> set (unique_loop docs [] seen) \<Longrightarrow>
     find (\<lambda>x. page_content x = page_content d) docs = Some d \<and> page_content d \<notin> seen"
proof (induction docs arbitrary: seen)
  case Nil
  then show ?case by simp
next
  case (Cons x docs)
  show ?case
  proof (cases "page_content x \<in> seen")
    case True
    with Cons.prems have "d \<in> set (unique_loop docs [] seen)" by simp
    from Cons.IH [OF this] True show ?thesis by auto
  next
    case False
    with Cons.prems unique_loop_append [of docs "[x]" "insert (page_content x) seen"]
    have "d = x \<or> d \<in> set (unique_loop docs [] (insert (page_content x) seen))" by auto
    then show ?thesis
    proof
      assume "d = x"
      with False show ?thesis by simp
    next
      assume "d \<in> set (unique_loop docs [] (insert (page_content x) seen))"
      from Cons.IH [OF this] show ?thesis by auto
    qed
  qed
qed

text \<open>
  Claim C7. With a non-empty list of regions, each region is searched with the budget
  \<open>10 div n\<close> and its own filter, a search that raises contributes nothing, and the
  result keeps, in the order of the merged results, the first document of each page
  content: no two returned documents have the same content.
\<close>

theorem facilities_budget_and_dedup:
  assumes "info_connected db" and "rs \<noteq> []"
  shows "\<exists>docs.
     search_funeral_facilities db region_json query region (Some rs) = Inr (Documents docs)
     \<and> (let all_regions = sort (remdups (concat (map snd region_json)));
             merged = concat (map (\<lambda>rgn. case facilities_search db query (10 div length rs)
                                               (facility_filter (close_matches db) all_regions rgn) of
                                          Inl ex \<Rightarrow> []
                                        | Inr results \<Rightarrow> results) rs)
         in distinct (map page_content docs)
            \<and> map page_content docs = rev (remdups (rev (map page_content merged)))
            \<and> (\<forall>d \<in> set docs. find (\<lambda>x. page_content x = page_content d) merged = Some d))"
proof -
  define all_regions where "all_regions = sort (remdups (concat (map snd region_json)))"
  define merged where
    "merged = concat (map (\<lambda>rgn. case facilities_search db query (10 div length rs)
                                       (facility_filter (close_matches db) all_regions rgn) of
                                  Inl ex \<Rightarrow> []
                                | Inr results \<Rightarrow> results) rs)"
  define docs where "docs = unique_loop merged [] {}"
  have run: "search_funeral_facilities db region_json query region (Some rs) = Inr (Documents docs)"
    using assms
    by (simp add: search_funeral_facilities_def Let_def facilities_loop_concat docs_def merged_def
        all_regions_def)
  have contents: "map page_content docs = rev (remdups (rev (map page_content merged)))"
    unfolding docs_def by (simp add: unique_loop_contents)
  then have "distinct (map page_content docs)" by simp
  moreover have "\<forall>d \<in> set docs. find (\<lambda>x. page_content x = page_content d) merged = Some d"
    unfolding docs_def using unique_loop_first_seen by blast
  ultimately show ?thesis
    using run contents unfolding Let_def all_regions_def [symmetric] merged_def [symmetric]
    by blast
qed


subsection \<open>Example runs\<close>

lemma demo_all_regions: "sort (remdups (concat (map snd demo_region_json))) = [''Busan'', ''Suwon'']"
  by (simp add: demo_region_json_def)

theorem ordinance_region_resolution_witness:
  "find_matching_regions (\<lambda>u rs n. []) ''Suwon'' [''Seoul'', ''Suwon''] 3 = Some [''Suwon'']
   \<and> ordinance_filter (\<lambda>u rs n. []) [''Seoul'', ''Suwon''] (Some ''Suwon'') =
       \<lparr> f_type = Some ''Public_Funeral_Ordinance'', f_region = Some (RegionEq ''Suwon'') \<rparr>
   \<and> ordinance_filter (\<lambda>u rs n. []) [''Seoul'', ''Suwon''] (Some ''Mars'') =
       \<lparr> f_type = Some ''Public_Funeral_Ordinance'', f_region = None \<rparr>"
proof -
  have hits: "filter (\<lambda>region. sublist ''Suwon'' region \<or> sublist region ''Suwon'') [''Seoul'', ''Suwon'']
                = [''Suwon'']"
    by (simp add: sublist_code(3) prefix_code(2))
  have none: "filter (\<lambda>region. sublist ''Mars'' region \<or> sublist region ''Mars'') [''Seoul'', ''Suwon'']
                = []"
    by (simp add: sublist_code(3) prefix_code(2))
  note a = ordinance_region_resolution
             [of "\<lambda>u rs n. []" "''Suwon''" "[''Seoul'', ''Suwon'']" demo_info_db "''q''"]
  note b = ordinance_region_resolution
             [of "\<lambda>u rs n. []" "''Mars''" "[''Seoul'', ''Suwon'']" demo_info_db "''q''"]
  from a hits have 1: "find_matching_regions (\<lambda>u rs n. []) ''Suwon'' [''Seoul'', ''Suwon''] 3
                         = Some [''Suwon'']"
    by (simp add: Let_def)
  from b none have 2: "find_matching_regions (\<lambda>u rs n. []) ''Mars'' [''Seoul'', ''Suwon''] 3 = None"
    by (simp add: Let_def)
  from a 1 have 3: "ordinance_filter (\<lambda>u rs n. []) [''Seoul'', ''Suwon''] (Some ''Suwon'') =
       \<lparr> f_type = Some ''Public_Funeral_Ordinance'', f_region = Some (RegionEq ''Suwon'') \<rparr>"
    by simp
  from b 2 have 4: "ordinance_filter (\<lambda>u rs n. []) [''Seoul'', ''Suwon''] (Some ''Mars'') =
       \<lparr> f_type = Some ''Public_Funeral_Ordinance'', f_region = None \<rparr>"
    by simp
  from 1 3 4 show ?thesis by simp
qed

text \<open>
  Three regions, budget 3 each: the search without region filter raises and is skipped,
  and the second document with the content of \<open>doc_a\<close> is dropped.
\<close>

theorem facilities_budget_and_dedup_witness:
  "search_funeral_facilities demo_info_db demo_region_json ''hall'' None
     (Some [Some ''Suwon'', None, Some ''Busan'']) = Inr (Documents [doc_a, doc_b, doc_c])
   \<and> distinct (map page_content [doc_a, doc_b, doc_c])"
proof -
  have c: "info_connected demo_info_db" by (simp add: demo_info_db_def)
  have cm: "close_matches demo_info_db = (\<lambda>u rs n. [])" by (simp add: demo_info_db_def)
  have fs: "facilities_search demo_info_db =
              (\<lambda>q k f. if k \<noteq> 3 then Inr []
                        else (case f_region f of
                                None \<Rightarrow> Inl (Exn ''TimeoutError'' ''timed out'')
                              | Some (RegionEq r) \<Rightarrow>
                                  if r = ''Suwon'' then Inr [doc_a, doc_b]
                                  else Inr [doc_a2, doc_c]
                              | Some (RegionIn rs) \<Rightarrow> Inr []))"
    by (simp add: demo_info_db_def)
  have f1: "facility_filter (\<lambda>u rs n. []) [''Busan'', ''Suwon''] (Some ''Suwon'')
              = \<lparr> f_type = None, f_region = Some (RegionEq ''Suwon'') \<rparr>"
    by (simp add: facility_filter_def find_matching_regions_def with_region_def Let_def
        sublist_code(3) prefix_code(2))
  have f2: "facility_filter (\<lambda>u rs n. []) [''Busan'', ''Suwon''] (Some ''Busan'')
              = \<lparr> f_type = None, f_region = Some (RegionEq ''Busan'') \<rparr>"
    by (simp add: facility_filter_def find_matching_regions_def with_region_def Let_def
        sublist_code(3) prefix_code(2))
  have f3: "facility_filter (\<lambda>u rs n. []) [''Busan'', ''Suwon''] None
              = \<lparr> f_type = None, f_region = None \<rparr>"
    by (simp add: facility_filter_def)
  from facilities_budget_and_dedup
         [OF c, of "[Some ''Suwon'', None, Some ''Busan'']" demo_region_json "''hall''" None]
  obtain docs where
    run: "search_funeral_facilities demo_info_db demo_region_json ''hall'' None
            (Some [Some ''Suwon'', None, Some ''Busan'']) = Inr (Documents docs)"
    and dist: "distinct (map page_content docs)"
    by (auto simp: Let_def)
  have eval: "search_funeral_facilities demo_info_db demo_region_json ''hall'' None
          (Some [Some ''Suwon'', None, Some ''Busan'']) = Inr (Documents [doc_a, doc_b, doc_c])"
    by (simp add: search_funeral_facilities_def Let_def demo_all_regions c cm fs f1 f2 f3
        doc_a_def doc_a2_def doc_b_def doc_c_def)
  with run have "docs = [doc_a, doc_b, doc_c]" by simp
  with dist eval show ?thesis by simp
qed

end
